theory Spec2Isabelle
  imports Complex_Main "HOL-Library.Sublist"
begin

section \<open>Exceptions, responses and the backend\<close>

text \<open>
  The session manager lives in three Python modules: \<^verbatim>\<open>gemini_utils.py\<close> (the probe walk,
  the session-creation walk and the send-time fallback walk), \<^verbatim>\<open>chat_new.py\<close> (class
  \<^verbatim>\<open>Chat\<close>) and \<^verbatim>\<open>chat_config_new.py\<close> (the pydantic configuration classes).

  A Python exception is a value: its class and the string that \<^verbatim>\<open>str(e)\<close> returns.
  \<^verbatim>\<open>BackendError\<close> stands for whatever subclass of \<^verbatim>\<open>Exception\<close> the Gemini client
  library raises (network, quota, authentication, blocked content). Every handler of
  the source is \<^verbatim>\<open>except Exception\<close>, so the model covers exceptions derived from
  \<^verbatim>\<open>Exception\<close>; \<^verbatim>\<open>KeyboardInterrupt\<close> and \<^verbatim>\<open>SystemExit\<close> are outside it.
\<close>

datatype exc_class = ValueError | NotImplementedError | AttributeError | PyException | BackendError

datatype exc = Exc exc_class string

fun py_str :: "exc \<Rightarrow> string" where
  "py_str (Exc c m) = m"

text \<open>\<^verbatim>\<open>str(last_error)\<close>, where \<^verbatim>\<open>last_error\<close> is still \<^verbatim>\<open>None\<close> when no candidate raised.\<close>

fun str_opt :: "exc option \<Rightarrow> string" where
  "str_opt None = ''None''"
| "str_opt (Some e) = py_str e"

text \<open>
  A response object of the client library: whether it is truthy (\<^verbatim>\<open>if response\<close>), and
  what reading \<^verbatim>\<open>response.text\<close> gives: the text, or an exception (the library raises
  when the reply holds no text part).
\<close>

record response =
  resp_truthy :: bool
  resp_text :: "exc + string"

text \<open>
  The \<^verbatim>\<open>generation_config\<close> dictionary that \<^verbatim>\<open>get_gemini_chat\<close> passes to
  \<^verbatim>\<open>genai.GenerativeModel\<close>. A Python float is taken as the real number it denotes.
\<close>

record generation_config =
  gc_temperature :: real
  gc_top_p :: real
  gc_top_k :: int
  gc_max_output_tokens :: int

text \<open>The handle \<^verbatim>\<open>model.start_chat(history=[])\<close> returns: the model it is bound to.\<close>

record chat_session =
  session_model :: string
  session_config :: generation_config

text \<open>What \<^verbatim>\<open>genai.list_models()\<close> returns: its truthiness, and the names its iteration yields.\<close>

record models_listing =
  listing_truthy :: bool
  listing_names :: "exc + string list"

text \<open>
  Every interaction with the remote service is a \<open>call\<close>. The state of the world is the
  log of the calls made so far, oldest first, and the backend is any function of that
  log: it may answer the same request differently at different times.
  \<open>GenerateContent m p\<close> is \<^verbatim>\<open>genai.GenerativeModel(m).generate_content(p, safety_settings=[])\<close>;
  \<open>StartChat m gc\<close> is \<^verbatim>\<open>genai.GenerativeModel(model_name=m, generation_config=gc, safety_settings=[]).start_chat(history=[])\<close>
  (no caller of the repository passes \<^verbatim>\<open>safety_settings\<close>, so it is always the empty list);
  \<open>SendMessage c msg\<close> is \<^verbatim>\<open>c.send_message(msg)\<close> on a chat handle.
\<close>

datatype call =
    Configure string
  | ListModels
  | GenerateContent string string
  | StartChat string generation_config
  | SendMessage chat_session string

record backend =
  be_configure :: "call list \<Rightarrow> string \<Rightarrow> exc option"
  be_list_models :: "call list \<Rightarrow> exc + models_listing"
  be_generate_content :: "call list \<Rightarrow> string \<Rightarrow> string \<Rightarrow> exc + response"
  be_start_chat :: "call list \<Rightarrow> string \<Rightarrow> generation_config \<Rightarrow> exc option"
  be_send_message :: "call list \<Rightarrow> chat_session \<Rightarrow> string \<Rightarrow> exc + response"

section \<open>gemini\_utils.py\<close>

subsection \<open>One attempt to read a reply\<close>

text \<open>
  The body of both \<^verbatim>\<open>try\<close> blocks of \<^verbatim>\<open>get_chat_response\<close>:
  \<^verbatim>\<open>
    response = <the call>
    if response and response.text:
        return response.text
  \<close>
  It raises (the call, or reading \<^verbatim>\<open>.text\<close>), falls through without a text (a falsy
  response or an empty text), or returns a non-empty text. The attribute \<^verbatim>\<open>.text\<close> is
  read twice, for the test and for the \<^verbatim>\<open>return\<close>; both reads give the same value.
\<close>

datatype attempt = Raised exc | NoText | Text string

definition text_attempt :: "exc + response \<Rightarrow> attempt" where
  "text_attempt r =
     (case r of
        Inl e \<Rightarrow> Raised e
      | Inr response \<Rightarrow>
          if resp_truthy response then
            (case resp_text response of
               Inl e \<Rightarrow> Raised e
             | Inr t \<Rightarrow> if t = [] then NoText else Text t)
          else NoText)"

subsection \<open>get\_chat\_response\<close>

definition fallback_model_names :: "string list" where
  "fallback_model_names =
     [''models/gemini-pro'', ''models/gemini-2.0-flash'', ''models/gemini-2.0-flash-lite'']"

text \<open>
  The \<^verbatim>\<open>for model_name in model_names\<close> loop of \<^verbatim>\<open>get_chat_response\<close>. \<open>Inr t\<close> is the
  \<^verbatim>\<open>return response.text\<close> inside the loop; \<open>Inl last_error\<close> is leaving the loop
  with the value \<^verbatim>\<open>last_error\<close> then holds.
\<close>

fun fallback_walk ::
  "backend \<Rightarrow> string \<Rightarrow> string list \<Rightarrow> exc option \<Rightarrow> call list
     \<Rightarrow> (exc option + string) \<times> call list" where
  "fallback_walk be message [] last_error lg = (Inl last_error, lg)"
| "fallback_walk be message (model_name # rest) last_error lg =
     (case text_attempt (be_generate_content be lg model_name message) of
        Text t \<Rightarrow> (Inr t, lg @ [GenerateContent model_name message])
      | Raised e \<Rightarrow>
          fallback_walk be message rest (Some e) (lg @ [GenerateContent model_name message])
      | NoText \<Rightarrow>
          fallback_walk be message rest last_error (lg @ [GenerateContent model_name message]))"

text \<open>
  \<^verbatim>\<open>get_chat_response(chat, message, stream)\<close>. The parameter \<^verbatim>\<open>stream\<close> is accepted and
  never read. The only exception that reaches the outer handler is the
  \<^verbatim>\<open>ValueError\<close> raised after the loop, which the handler wraps again.
\<close>

definition get_chat_response ::
  "backend \<Rightarrow> chat_session \<Rightarrow> string \<Rightarrow> bool \<Rightarrow> call list \<Rightarrow> (exc + string) \<times> call list" where
  "get_chat_response be chat message stream lg =
     (case text_attempt (be_send_message be lg chat message) of
        Text t \<Rightarrow> (Inr t, lg @ [SendMessage chat message])
      | _ \<Rightarrow>
          (case fallback_walk be message fallback_model_names None
                  (lg @ [SendMessage chat message]) of
             (Inr t, lg') \<Rightarrow> (Inr t, lg')
           | (Inl last_error, lg') \<Rightarrow>
               (Inl (Exc PyException (''Failed to get chat response: '' @
                  py_str (Exc ValueError (''Failed to get response from any model: '' @
                    str_opt last_error)))), lg')))"

subsection \<open>initialize\_gemini\<close>

definition model_names :: "string list" where
  "model_names =
     [''models/gemini-pro'', ''models/gemini-2.0-flash'', ''models/gemini-2.0-flash-lite'']"

definition probe_prompt :: string where
  "probe_prompt = ''Hello, testing the API.''"

text \<open>
  The probe loop of \<^verbatim>\<open>initialize_gemini\<close>:
  \<^verbatim>\<open>
    initialized = False
    for model_name in model_names:
        try:
            model = genai.GenerativeModel(model_name)
            response = model.generate_content("Hello, testing the API.", safety_settings=[])
            if response:
                initialized = True
                break
        except Exception:
            continue
  \<close>
  The result is the final value of \<^verbatim>\<open>initialized\<close>. The local \<^verbatim>\<open>model\<close> is not used after
  the loop and the exception of a failed probe is not kept.
\<close>

fun probe_walk :: "backend \<Rightarrow> string list \<Rightarrow> call list \<Rightarrow> bool \<times> call list" where
  "probe_walk be [] lg = (False, lg)"
| "probe_walk be (model_name # rest) lg =
     (case be_generate_content be lg model_name probe_prompt of
        Inr response \<Rightarrow>
          if resp_truthy response then (True, lg @ [GenerateContent model_name probe_prompt])
          else probe_walk be rest (lg @ [GenerateContent model_name probe_prompt])
      | Inl e \<Rightarrow> probe_walk be rest (lg @ [GenerateContent model_name probe_prompt]))"

text \<open>
  The body of the outer \<^verbatim>\<open>try\<close> of \<^verbatim>\<open>initialize_gemini\<close>, with a non-empty key:
  configure the client, list the models, test the listing's truthiness, iterate it for
  the debugging \<^verbatim>\<open>print\<close> (the printed line itself is not modelled), walk the probes.
\<close>

definition initialize_gemini_try :: "backend \<Rightarrow> string \<Rightarrow> call list \<Rightarrow> (exc + unit) \<times> call list" where
  "initialize_gemini_try be api_key lg =
     (case be_configure be lg api_key of
        Some e \<Rightarrow> (Inl e, lg @ [Configure api_key])
      | None \<Rightarrow>
          (case be_list_models be (lg @ [Configure api_key]) of
             Inl e \<Rightarrow> (Inl e, lg @ [Configure api_key, ListModels])
           | Inr available_models \<Rightarrow>
               if \<not> listing_truthy available_models then
                 (Inl (Exc ValueError ''No models available. Check your API key.''),
                  lg @ [Configure api_key, ListModels])
               else
                 (case listing_names available_models of
                    Inl e \<Rightarrow> (Inl e, lg @ [Configure api_key, ListModels])
                  | Inr names \<Rightarrow>
                      (case probe_walk be model_names (lg @ [Configure api_key, ListModels]) of
                         (True, lg') \<Rightarrow> (Inr (), lg')
                       | (False, lg') \<Rightarrow>
                           (Inl (Exc ValueError ''Failed to initialize with any available model''),
                            lg')))))"

text \<open>
  \<^verbatim>\<open>initialize_gemini(api_key)\<close>; \<open>getenv\<close> is \<^verbatim>\<open>os.getenv\<close>. A key that is \<^verbatim>\<open>None\<close> or
  empty after the lookup raises before the \<^verbatim>\<open>try\<close>; whatever the \<^verbatim>\<open>try\<close> raises is
  replaced by a \<^verbatim>\<open>ValueError\<close> whose message ends with \<^verbatim>\<open>str(e)\<close>.
\<close>

definition initialize_gemini ::
  "backend \<Rightarrow> (string \<Rightarrow> string option) \<Rightarrow> string option \<Rightarrow> call list \<Rightarrow> (exc + unit) \<times> call list" where
  "initialize_gemini be getenv api_key lg =
     (case (case api_key of None \<Rightarrow> getenv ''GOOGLE_API_KEY'' | Some k \<Rightarrow> Some k) of
        None \<Rightarrow> (Inl (Exc ValueError ''No Gemini API key provided''), lg)
      | Some k \<Rightarrow>
          if k = [] then (Inl (Exc ValueError ''No Gemini API key provided''), lg)
          else
            (case initialize_gemini_try be k lg of
               (Inl e, lg') \<Rightarrow>
                 (Inl (Exc ValueError (''Failed to initialize Gemini API: '' @ py_str e)), lg')
             | (Inr u, lg') \<Rightarrow> (Inr (), lg')))"

subsection \<open>get\_gemini\_chat\<close>

text \<open>
  The candidates of \<^verbatim>\<open>get_gemini_chat\<close>: the requested model first, then the three
  hard-coded identifiers.
\<close>

definition chat_model_names :: "string \<Rightarrow> string list" where
  "chat_model_names model =
     [model, ''models/gemini-pro'', ''models/gemini-2.0-flash'', ''models/gemini-2.0-flash-lite'']"

text \<open>
  The loop of \<^verbatim>\<open>get_gemini_chat\<close>: the first candidate for which building the model and
  \<^verbatim>\<open>start_chat\<close> do not raise is returned, bound to that candidate. No prompt is sent.
\<close>

fun chat_walk ::
  "backend \<Rightarrow> generation_config \<Rightarrow> string list \<Rightarrow> exc option \<Rightarrow> call list
     \<Rightarrow> (exc option + chat_session) \<times> call list" where
  "chat_walk be gc [] last_error lg = (Inl last_error, lg)"
| "chat_walk be gc (model_name # rest) last_error lg =
     (case be_start_chat be lg model_name gc of
        None \<Rightarrow>
          (Inr \<lparr>session_model = model_name, session_config = gc\<rparr>,
           lg @ [StartChat model_name gc])
      | Some e \<Rightarrow> chat_walk be gc rest (Some e) (lg @ [StartChat model_name gc]))"

definition get_gemini_chat ::
  "backend \<Rightarrow> string \<Rightarrow> real \<Rightarrow> real \<Rightarrow> int \<Rightarrow> int \<Rightarrow> call list \<Rightarrow> (exc + chat_session) \<times> call list" where
  "get_gemini_chat be model temperature top_p top_k max_output_tokens lg =
     (case chat_walk be
             \<lparr>gc_temperature = temperature, gc_top_p = top_p, gc_top_k = top_k,
              gc_max_output_tokens = max_output_tokens\<rparr>
             (chat_model_names model) None lg of
        (Inr chat, lg') \<Rightarrow> (Inr chat, lg')
      | (Inl last_error, lg') \<Rightarrow>
          (Inl (Exc PyException (''Failed to create Gemini chat instance with any model: '' @
             str_opt last_error)), lg'))"

section \<open>chat\_config\_new.py\<close>

text \<open>
  The pydantic classes. A record holds the field values given to the constructor (a
  field left out takes its default before validation, so the record is total);
  \<open>_new\<close> is the constructor: it returns the object, or the \<^verbatim>\<open>ValidationError\<close> as the
  list of the fields that failed, in declaration order. A \<^verbatim>\<open>float\<close> field is the real
  number it denotes (the bounds reject NaN and the infinities as they reject any
  other value outside them); a \<^verbatim>\<open>Literal\<close> field is a string that must be one of the
  literals. Values are taken at the declared type of their field: pydantic's coercion
  of other input types is not modelled, nor is the validation \<^verbatim>\<open>ChatConfig\<close> itself
  runs on its three fields.
\<close>

record GeminiConfig =
  gemini_model :: string
  gemini_temperature :: real
  gemini_top_p :: real
  gemini_top_k :: int
  gemini_max_output_tokens :: int
  gemini_api_key :: "string option"

definition GeminiConfig_errors :: "GeminiConfig \<Rightarrow> string list" where
  "GeminiConfig_errors f =
     (if gemini_model f = ''gemini-pro'' then [] else [''model'']) @
     (if 0 \<le> gemini_temperature f \<and> gemini_temperature f \<le> 1 then [] else [''temperature'']) @
     (if 0 \<le> gemini_top_p f \<and> gemini_top_p f \<le> 1 then [] else [''top_p'']) @
     (if 1 \<le> gemini_top_k f then [] else [''top_k'']) @
     (if 1 \<le> gemini_max_output_tokens f then [] else [''max_output_tokens''])"

definition GeminiConfig_new :: "GeminiConfig \<Rightarrow> string list + GeminiConfig" where
  "GeminiConfig_new f = (if GeminiConfig_errors f = [] then Inr f else Inl (GeminiConfig_errors f))"

definition GeminiConfig_default :: GeminiConfig where
  "GeminiConfig_default =
     \<lparr>gemini_model = ''gemini-pro'', gemini_temperature = 7 / 10, gemini_top_p = 8 / 10,
      gemini_top_k = 40, gemini_max_output_tokens = 2048, gemini_api_key = None\<rparr>"

record OpenAIConfig =
  openai_model :: string
  openai_temperature :: real
  openai_top_p :: real
  openai_presence_penalty :: real
  openai_frequency_penalty :: real
  openai_max_tokens :: "int option"
  openai_api_key :: "string option"

definition OpenAIConfig_errors :: "OpenAIConfig \<Rightarrow> string list" where
  "OpenAIConfig_errors f =
     (if openai_model f = ''gpt-3.5-turbo'' \<or> openai_model f = ''gpt-4'' then [] else [''model'']) @
     (if 0 \<le> openai_temperature f \<and> openai_temperature f \<le> 2 then [] else [''temperature'']) @
     (if 0 \<le> openai_top_p f \<and> openai_top_p f \<le> 1 then [] else [''top_p'']) @
     (if - 2 \<le> openai_presence_penalty f \<and> openai_presence_penalty f \<le> 2 then []
      else [''presence_penalty'']) @
     (if - 2 \<le> openai_frequency_penalty f \<and> openai_frequency_penalty f \<le> 2 then []
      else [''frequency_penalty'']) @
     (case openai_max_tokens f of
        None \<Rightarrow> []
      | Some n \<Rightarrow> if 1 \<le> n then [] else [''max_tokens''])"

definition OpenAIConfig_new :: "OpenAIConfig \<Rightarrow> string list + OpenAIConfig" where
  "OpenAIConfig_new f = (if OpenAIConfig_errors f = [] then Inr f else Inl (OpenAIConfig_errors f))"

record ChatConfig =
  provider :: string
  openai_config :: "OpenAIConfig option"
  gemini_config :: "GeminiConfig option"

text \<open>\<^verbatim>\<open>ChatConfig()\<close>: the defaults, \<^verbatim>\<open>gemini_config\<close> from its \<^verbatim>\<open>default_factory\<close>.\<close>

definition ChatConfig_default :: ChatConfig where
  "ChatConfig_default =
     \<lparr>provider = ''gemini'', openai_config = None, gemini_config = Some GeminiConfig_default\<rparr>"

text \<open>
  \<^verbatim>\<open>a or b\<close> on optional strings: \<^verbatim>\<open>a\<close> when it is truthy (neither \<^verbatim>\<open>None\<close> nor empty),
  else \<^verbatim>\<open>b\<close>.
\<close>

definition py_or :: "string option \<Rightarrow> string option \<Rightarrow> string option" where
  "py_or a b = (case a of None \<Rightarrow> b | Some k \<Rightarrow> if k = [] then b else Some k)"

text \<open>
  \<^verbatim>\<open>ChatConfig.get_api_key\<close>. Reading \<^verbatim>\<open>.api_key\<close> of a sub-config that is \<^verbatim>\<open>None\<close> raises
  \<^verbatim>\<open>AttributeError\<close>. The result may be \<^verbatim>\<open>None\<close>: no key at all.
\<close>

definition none_has_no_attribute :: "string \<Rightarrow> exc" where
  "none_has_no_attribute name =
     Exc AttributeError (CHR 0x27 # ''NoneType'' @ CHR 0x27 # '' object has no attribute '' @
       CHR 0x27 # name @ [CHR 0x27])"

definition get_api_key :: "(string \<Rightarrow> string option) \<Rightarrow> ChatConfig \<Rightarrow> exc + string option" where
  "get_api_key getenv self =
     (if provider self = ''openai'' then
        (case openai_config self of
           None \<Rightarrow> Inl (none_has_no_attribute ''api_key'')
         | Some oc \<Rightarrow> Inr (py_or (openai_api_key oc) (getenv ''OPENAI_API_KEY'')))
      else
        (case gemini_config self of
           None \<Rightarrow> Inl (none_has_no_attribute ''api_key'')
         | Some gc \<Rightarrow> Inr (py_or (gemini_api_key gc) (getenv ''GOOGLE_API_KEY''))))"

section \<open>chat\_new.py\<close>

text \<open>
  An object of class \<^verbatim>\<open>Chat\<close>. The attribute \<^verbatim>\<open>chat\<close> is set by \<^verbatim>\<open>_initialize_chat\<close>,
  which the constructor runs, so every object that exists has it.
\<close>

record Chat =
  config :: ChatConfig
  system_message :: "string option"
  chat :: chat_session

text \<open>
  How a run of \<^verbatim>\<open>_initialize_chat\<close> ends: it raises before \<^verbatim>\<open>self.chat\<close> is assigned; it
  assigns \<^verbatim>\<open>self.chat\<close> and returns; or it assigns \<^verbatim>\<open>self.chat\<close> and then sending the
  system message raises.
\<close>

datatype init_result =
    Raised_unbound exc
  | Bound chat_session
  | Bound_then_raised chat_session exc

text \<open>
  \<^verbatim>\<open>Chat._initialize_chat\<close>, reading \<^verbatim>\<open>self.config\<close> and \<^verbatim>\<open>self.system_message\<close>.
  \<^verbatim>\<open>self.config.gemini_config\<close> is read again for the arguments of \<^verbatim>\<open>get_gemini_chat\<close>.
  The reply to the system message is dropped.
\<close>

definition initialize_chat ::
  "backend \<Rightarrow> (string \<Rightarrow> string option) \<Rightarrow> ChatConfig \<Rightarrow> string option \<Rightarrow> call list
     \<Rightarrow> init_result \<times> call list" where
  "initialize_chat be getenv cfg sys_msg lg =
     (if provider cfg = ''gemini'' then
        (case get_api_key getenv cfg of
           Inl e \<Rightarrow> (Raised_unbound e, lg)
         | Inr api_key \<Rightarrow>
             (case py_or api_key (getenv ''GOOGLE_API_KEY'') of
                None \<Rightarrow> (Raised_unbound (Exc ValueError ''No Gemini API key provided''), lg)
              | Some k \<Rightarrow>
                  if k = [] then
                    (Raised_unbound (Exc ValueError ''No Gemini API key provided''), lg)
                  else
                    (case initialize_gemini be getenv (Some k) lg of
                       (Inl e, lg1) \<Rightarrow> (Raised_unbound e, lg1)
                     | (Inr u, lg1) \<Rightarrow>
                         (case gemini_config cfg of
                            None \<Rightarrow> (Raised_unbound (none_has_no_attribute ''model''), lg1)
                          | Some gc \<Rightarrow>
                              (case get_gemini_chat be (gemini_model gc) (gemini_temperature gc)
                                      (gemini_top_p gc) (gemini_top_k gc)
                                      (gemini_max_output_tokens gc) lg1 of
                                 (Inl e, lg2) \<Rightarrow> (Raised_unbound e, lg2)
                               | (Inr c, lg2) \<Rightarrow>
                                   (case sys_msg of
                                      None \<Rightarrow> (Bound c, lg2)
                                    | Some m \<Rightarrow>
                                        if m = [] then (Bound c, lg2)
                                        else
                                          (case be_send_message be lg2 c m of
                                             Inl e \<Rightarrow>
                                               (Bound_then_raised c e, lg2 @ [SendMessage c m])
                                           | Inr r \<Rightarrow> (Bound c, lg2 @ [SendMessage c m]))))))))
      else
        (Raised_unbound (Exc NotImplementedError ''Only Gemini provider is currently supported''),
         lg))"

text \<open>
  \<^verbatim>\<open>Chat(config, system_message)\<close>: \<^verbatim>\<open>config or ChatConfig()\<close> (a pydantic object is always
  truthy), then \<^verbatim>\<open>_initialize_chat\<close>. When that raises, the constructor raises and there
  is no object.
\<close>

definition Chat_init ::
  "backend \<Rightarrow> (string \<Rightarrow> string option) \<Rightarrow> ChatConfig option \<Rightarrow> string option \<Rightarrow> call list
     \<Rightarrow> (exc + Chat) \<times> call list" where
  "Chat_init be getenv cfg_arg sys_msg lg =
     (case initialize_chat be getenv (case cfg_arg of None \<Rightarrow> ChatConfig_default | Some c \<Rightarrow> c)
             sys_msg lg of
        (Bound c, lg') \<Rightarrow>
          (Inr \<lparr>config = (case cfg_arg of None \<Rightarrow> ChatConfig_default | Some c \<Rightarrow> c),
                system_message = sys_msg, chat = c\<rparr>, lg')
      | (Raised_unbound e, lg') \<Rightarrow> (Inl e, lg')
      | (Bound_then_raised c e, lg') \<Rightarrow> (Inl e, lg'))"

text \<open>
  \<^verbatim>\<open>Chat.reset\<close>: \<^verbatim>\<open>_initialize_chat\<close> on the object as it is now. The result is the
  exception raised, if any, and the object afterwards.
\<close>

definition Chat_reset ::
  "backend \<Rightarrow> (string \<Rightarrow> string option) \<Rightarrow> Chat \<Rightarrow> call list \<Rightarrow> (exc option \<times> Chat) \<times> call list" where
  "Chat_reset be getenv self lg =
     (case initialize_chat be getenv (config self) (system_message self) lg of
        (Bound c, lg') \<Rightarrow> ((None, self\<lparr>chat := c\<rparr>), lg')
      | (Raised_unbound e, lg') \<Rightarrow> ((Some e, self), lg')
      | (Bound_then_raised c e, lg') \<Rightarrow> ((Some e, self\<lparr>chat := c\<rparr>), lg'))"

text \<open>
  \<^verbatim>\<open>Chat.send_message(message, stream)\<close>: it forwards to \<^verbatim>\<open>get_chat_response\<close> with
  \<^verbatim>\<open>self.chat\<close> and wraps whatever that raises once more.
\<close>

definition Chat_send_message ::
  "backend \<Rightarrow> Chat \<Rightarrow> string \<Rightarrow> bool \<Rightarrow> call list \<Rightarrow> (exc + string) \<times> call list" where
  "Chat_send_message be self message stream lg =
     (case get_chat_response be (chat self) message stream lg of
        (Inr t, lg') \<Rightarrow> (Inr t, lg')
      | (Inl e, lg') \<Rightarrow>
          (Inl (Exc PyException (''Failed to get chat response: '' @ py_str e)), lg'))"

section \<open>Vocabulary of the properties\<close>

text \<open>
  A walk over candidates \<open>ms\<close> that starts in the world \<open>lg\<close> makes one call per
  candidate, so candidate number \<open>i\<close> (from 0) is tried in the world \<open>lg\<close> extended by
  the calls for the \<open>i\<close> candidates before it. \<open>generate_at\<close> is the outcome of reading
  a text from candidate \<open>i\<close> at its turn, \<open>probe_at\<close> whether its probe is answered by
  a truthy response, \<open>start_at\<close> what creating a session on it raises.
\<close>

definition generate_at :: "backend \<Rightarrow> string \<Rightarrow> string list \<Rightarrow> call list \<Rightarrow> nat \<Rightarrow> attempt" where
  "generate_at be prompt ms lg i =
     text_attempt
       (be_generate_content be (lg @ map (\<lambda>m. GenerateContent m prompt) (take i ms)) (ms ! i) prompt)"

definition probe_at :: "backend \<Rightarrow> string list \<Rightarrow> call list \<Rightarrow> nat \<Rightarrow> bool" where
  "probe_at be ms lg i =
     (case be_generate_content be (lg @ map (\<lambda>m. GenerateContent m probe_prompt) (take i ms))
             (ms ! i) probe_prompt of
        Inl e \<Rightarrow> False
      | Inr response \<Rightarrow> resp_truthy response)"

definition start_at ::
  "backend \<Rightarrow> generation_config \<Rightarrow> string list \<Rightarrow> call list \<Rightarrow> nat \<Rightarrow> exc option" where
  "start_at be gc ms lg i =
     be_start_chat be (lg @ map (\<lambda>m. StartChat m gc) (take i ms)) (ms ! i) gc"



section \<open>Example worlds\<close>

text \<open>
  Concrete backends, configurations and objects at which the properties below are
  evaluated. \<open>backend_of gen send start\<close> accepts every key, lists the three models, and
  answers a probe or a stateless prompt to model \<open>m\<close> with \<open>gen m\<close>, a message on any
  session with \<open>send\<close>, and the creation of a session on \<open>m\<close> by raising \<open>start m\<close> (if
  any).
\<close>

definition ok_response :: "string \<Rightarrow> exc + response" where
  "ok_response t = Inr \<lparr>resp_truthy = True, resp_text = Inr t\<rparr>"

definition not_found :: "string \<Rightarrow> exc" where
  "not_found m = Exc BackendError (''404 '' @ m @ '' is not found'')"

definition backend_of ::
  "(string \<Rightarrow> exc + response) \<Rightarrow> (exc + response) \<Rightarrow> (string \<Rightarrow> exc option) \<Rightarrow> backend" where
  "backend_of gen send start =
     \<lparr>be_configure = (\<lambda>lg k. None),
      be_list_models = (\<lambda>lg. Inr \<lparr>listing_truthy = True, listing_names = Inr model_names\<rparr>),
      be_generate_content = (\<lambda>lg m p. gen m),
      be_start_chat = (\<lambda>lg m gc. start m),
      be_send_message = (\<lambda>lg c msg. send)\<rparr>"

text \<open>
  Only the last candidate of the priority list answers; the bound session has expired;
  a session can be created on every model.
\<close>

definition world_lite_only :: backend where
  "world_lite_only =
     backend_of
       (\<lambda>m. if m = ''models/gemini-2.0-flash-lite'' then ok_response ''Hi there'' else Inl (not_found m))
       (Inl (Exc BackendError ''session expired''))
       (\<lambda>m. None)"

text \<open>Every model is gone: each request raises an error that names the model.\<close>

definition world_down :: backend where
  "world_down =
     backend_of (\<lambda>m. Inl (not_found m)) (Inl (Exc BackendError ''session expired''))
       (\<lambda>m. Some (not_found m))"

text \<open>The configured name \<^verbatim>\<open>gemini-pro\<close> is stale: no session can be created on it.\<close>

definition world_stale_name :: backend where
  "world_stale_name =
     backend_of (\<lambda>m. ok_response ''Hello!'') (ok_response ''Hello!'')
       (\<lambda>m. if m = ''gemini-pro'' then Some (not_found m) else None)"

text \<open>Everything works and every reply is \<^verbatim>\<open>Hello!\<close>.\<close>

definition world_echo :: backend where
  "world_echo = backend_of (\<lambda>m. ok_response ''Hello!'') (ok_response ''Hello!'') (\<lambda>m. None)"

definition default_gc :: generation_config where
  "default_gc =
     \<lparr>gc_temperature = 7 / 10, gc_top_p = 8 / 10, gc_top_k = 40, gc_max_output_tokens = 2048\<rparr>"

definition ready_chat :: Chat where
  "ready_chat =
     \<lparr>config = ChatConfig_default, system_message = None,
      chat = \<lparr>session_model = ''gemini-pro'', session_config = default_gc\<rparr>\<rparr>"

definition keyed_config :: ChatConfig where
  "keyed_config =
     \<lparr>provider = ''gemini'', openai_config = None,
      gemini_config = Some (GeminiConfig_default\<lparr>gemini_api_key := Some ''key''\<rparr>)\<rparr>"

definition openai_example :: OpenAIConfig where
  "openai_example =
     \<lparr>openai_model = ''gpt-3.5-turbo'', openai_temperature = 15 / 10, openai_top_p = 1,
      openai_presence_penalty = 0, openai_frequency_penalty = 0, openai_max_tokens = None,
      openai_api_key = None\<rparr>"

definition openai_keyed_config :: ChatConfig where
  "openai_keyed_config =
     \<lparr>provider = ''openai'',
      openai_config = Some (openai_example\<lparr>openai_api_key := Some ''explicit''\<rparr>),
      gemini_config = Some GeminiConfig_default\<rparr>"

definition openai_chat :: Chat where
  "openai_chat = ready_chat\<lparr>config := openai_keyed_config\<rparr>"

text \<open>An environment without variables, and one that holds a key for each provider.\<close>

definition no_env :: "string \<Rightarrow> string option" where
  "no_env name = None"

definition key_env :: "string \<Rightarrow> string option" where
  "key_env name =
     (if name = ''GOOGLE_API_KEY'' then Some ''google-env-key''
      else if name = ''OPENAI_API_KEY'' then Some ''openai-env-key'' else None)"

section \<open>The three walks\<close>

text \<open>
  Each walk is characterised by the outcomes its candidates have at their turns: it
  stops at the first candidate that succeeds, having called exactly the candidates up
  to that one, and it leaves the loop without a result exactly when every candidate
  fails.
\<close>

subsection \<open>The send-time fallback walk\<close>











subsection \<open>The probe walk\<close>

lemma probe_at_Suc:
  "probe_at be (m # ms) lg (Suc j) = probe_at be ms (lg @ [GenerateContent m probe_prompt]) j"
  by (simp add: probe_at_def)

lemma probe_at_0:
  "probe_at be (m # ms) lg 0 =
     (case be_generate_content be lg m probe_prompt of Inl e \<Rightarrow> False | Inr r \<Rightarrow> resp_truthy r)"
  by (simp add: probe_at_def)

lemma probe_walk_success:
  "i < length ms \<Longrightarrow> \<forall>j<i. \<not> probe_at be ms lg j \<Longrightarrow> probe_at be ms lg i \<Longrightarrow>
   probe_walk be ms lg = (True, lg @ map (\<lambda>m. GenerateContent m probe_prompt) (take (Suc i) ms))"
proof (induction ms arbitrary: i lg)
  case Nil
  then show ?case by simp
next
  case (Cons m ms)
  show ?case
  proof (cases i)
    case 0
    with Cons.prems show ?thesis by (simp add: probe_at_0 split: sum.splits)
  next
    case (Suc k)
    from Cons.prems Suc have k: "k < length ms" by simp
    from Cons.prems Suc have first: "\<not> probe_at be (m # ms) lg 0" by blast
    from Cons.prems Suc have before: "\<forall>j<k. \<not> probe_at be ms (lg @ [GenerateContent m probe_prompt]) j"
      by (auto simp: probe_at_Suc[symmetric])
    from Cons.prems Suc have at: "probe_at be ms (lg @ [GenerateContent m probe_prompt]) k"
      by (simp add: probe_at_Suc)
    note step = Cons.IH[OF k before at]
    from first show ?thesis
      by (simp add: probe_at_0 step Suc split: sum.splits)
  qed
qed



subsection \<open>The session-creation walk\<close>

lemma start_at_Suc:
  "start_at be gc (m # ms) lg (Suc j) = start_at be gc ms (lg @ [StartChat m gc]) j"
  by (simp add: start_at_def)

lemma start_at_0: "start_at be gc (m # ms) lg 0 = be_start_chat be lg m gc"
  by (simp add: start_at_def)

lemma chat_walk_bound:
  "i < length ms \<Longrightarrow> \<forall>j<i. start_at be gc ms lg j \<noteq> None \<Longrightarrow> start_at be gc ms lg i = None \<Longrightarrow>
   chat_walk be gc ms le lg =
     (Inr \<lparr>session_model = ms ! i, session_config = gc\<rparr>,
      lg @ map (\<lambda>m. StartChat m gc) (take (Suc i) ms))"
proof (induction ms arbitrary: i le lg)
  case Nil
  then show ?case by simp
next
  case (Cons m ms)
  show ?case
  proof (cases i)
    case 0
    with Cons.prems show ?thesis by (simp add: start_at_0)
  next
    case (Suc k)
    from Cons.prems Suc have k: "k < length ms" by simp
    from Cons.prems Suc have first: "start_at be gc (m # ms) lg 0 \<noteq> None" by blast
    from Cons.prems Suc have before: "\<forall>j<k. start_at be gc ms (lg @ [StartChat m gc]) j \<noteq> None"
      by (auto simp: start_at_Suc[symmetric])
    from Cons.prems Suc have at: "start_at be gc ms (lg @ [StartChat m gc]) k = None"
      by (simp add: start_at_Suc)
    have step: "chat_walk be gc ms le' (lg @ [StartChat m gc]) =
        (Inr \<lparr>session_model = ms ! k, session_config = gc\<rparr>,
         (lg @ [StartChat m gc]) @ map (\<lambda>m. StartChat m gc) (take (Suc k) ms))" for le'
      by (rule Cons.IH[OF k before at])
    from first show ?thesis
      by (auto simp: start_at_0 step Suc)
  qed
qed

lemma chat_walk_exhausted:
  "\<forall>j<length ms. start_at be gc ms lg j \<noteq> None \<Longrightarrow>
   chat_walk be gc ms le lg =
     (Inl (if ms = [] then le else start_at be gc ms lg (length ms - 1)),
      lg @ map (\<lambda>m. StartChat m gc) ms)"
proof (induction ms arbitrary: le lg)
  case Nil
  then show ?case by simp
next
  case (Cons m ms)
  from Cons.prems have first: "start_at be gc (m # ms) lg 0 \<noteq> None" by blast
  from Cons.prems have rest: "\<forall>j<length ms. start_at be gc ms (lg @ [StartChat m gc]) j \<noteq> None"
    by (auto simp: start_at_Suc[symmetric])
  note step = Cons.IH[OF rest]
  show ?case
  proof (cases ms)
    case Nil
    with first show ?thesis by (auto simp: start_at_0)
  next
    case (Cons m' ms')
    then have "length ms - 1 = length ms' " by simp
    with first Cons show ?thesis
      using step by (auto simp: start_at_0 start_at_Suc)
  qed
qed


lemma get_gemini_chat_bound:
  assumes "i < length (model # model_names)"
    and "\<forall>j<i. start_at be
        \<lparr>gc_temperature = temperature, gc_top_p = top_p, gc_top_k = top_k,
         gc_max_output_tokens = max_output_tokens\<rparr> (model # model_names) lg j \<noteq> None"
    and "start_at be
        \<lparr>gc_temperature = temperature, gc_top_p = top_p, gc_top_k = top_k,
         gc_max_output_tokens = max_output_tokens\<rparr> (model # model_names) lg i = None"
  shows "get_gemini_chat be model temperature top_p top_k max_output_tokens lg =
     (Inr \<lparr>session_model = (model # model_names) ! i,
           session_config =
             \<lparr>gc_temperature = temperature, gc_top_p = top_p, gc_top_k = top_k,
              gc_max_output_tokens = max_output_tokens\<rparr>\<rparr>,
      lg @ map (\<lambda>m. StartChat m
             \<lparr>gc_temperature = temperature, gc_top_p = top_p, gc_top_k = top_k,
              gc_max_output_tokens = max_output_tokens\<rparr>) (take (Suc i) (model # model_names)))"
proof -
  have unfold: "get_gemini_chat be model temperature top_p top_k max_output_tokens lg =
      (case chat_walk be
             \<lparr>gc_temperature = temperature, gc_top_p = top_p, gc_top_k = top_k,
              gc_max_output_tokens = max_output_tokens\<rparr> (model # model_names) None lg of
        (Inr c, lg') \<Rightarrow> (Inr c, lg')
      | (Inl last_error, lg') \<Rightarrow>
          (Inl (Exc PyException (''Failed to create Gemini chat instance with any model: '' @
             str_opt last_error)), lg'))"
    by (simp add: get_gemini_chat_def chat_model_names_def model_names_def)
  show ?thesis
    unfolding unfold chat_walk_bound[OF assms, of None] by simp
qed


subsection \<open>Evaluating the example worlds\<close>

lemmas world_defs = chat_model_names_def backend_of_def ok_response_def not_found_def text_attempt_def
  generate_at_def probe_at_def start_at_def model_names_def ready_chat_def

section \<open>Sending a message\<close>





text \<open>
  C8. The \<^verbatim>\<open>stream\<close> flag has no code path of its own: for every backend, object,
  message and state of the world, \<^verbatim>\<open>send_message\<close> (and \<^verbatim>\<open>get_chat_response\<close> under it)
  gives the same result, returned text or raised exception, and makes the same backend
  calls with \<^verbatim>\<open>stream=True\<close> as with \<^verbatim>\<open>stream=False\<close>.
\<close>

theorem stream_flag_ignored:
  "Chat_send_message be self message True lg = Chat_send_message be self message False lg \<and>
   get_chat_response be c message True lg = get_chat_response be c message False lg"
  by (simp add: Chat_send_message_def get_chat_response_def)




section \<open>Initialization\<close>

text \<open>
  Against C2 as the spec words it: the probe's winner is not what the session is bound
  to. Here the first two candidates fail their probes and the third answers; the
  session that \<^verbatim>\<open>Chat(config)\<close> holds afterwards is bound to the configured name
  \<^verbatim>\<open>gemini-pro\<close>, on which no probe was sent.
\<close>

theorem probe_winner_is_not_bound:
  "\<not> probe_at world_lite_only model_names [Configure ''key'', ListModels] 0 \<and>
   \<not> probe_at world_lite_only model_names [Configure ''key'', ListModels] 1 \<and>
   probe_at world_lite_only model_names [Configure ''key'', ListModels] 2 \<and>
   model_names ! 2 = ''models/gemini-2.0-flash-lite'' \<and>
   Chat_init world_lite_only no_env (Some keyed_config) None [] =
     (Inr \<lparr>config = keyed_config, system_message = None,
           chat = \<lparr>session_model = ''gemini-pro'', session_config = default_gc\<rparr>\<rparr>,
      [Configure ''key'', ListModels,
       GenerateContent ''models/gemini-pro'' ''Hello, testing the API.'',
       GenerateContent ''models/gemini-2.0-flash'' ''Hello, testing the API.'',
       GenerateContent ''models/gemini-2.0-flash-lite'' ''Hello, testing the API.'',
       StartChat ''gemini-pro'' default_gc])"
  by (simp add: world_lite_only_def world_defs Chat_init_def initialize_chat_def get_api_key_def
      keyed_config_def GeminiConfig_default_def py_or_def no_env_def initialize_gemini_def
      initialize_gemini_try_def probe_prompt_def get_gemini_chat_def default_gc_def)

text \<open>
  C2, as the code has it. \<^verbatim>\<open>initialize_gemini\<close> probes the candidates of the priority
  list in order, each with the one prompt \<open>probe_prompt\<close>, and stops at the first
  candidate whose probe returns a truthy response: the calls made are the probes of the
  candidates up to that one, none after it. The winner is only a liveness check. The
  session is bound by \<^verbatim>\<open>get_gemini_chat\<close>, which walks the configured model followed by
  the priority list and binds the first candidate on which creating a session does not
  raise, without probing it.
\<close>

theorem probe_walk_stops_at_first_success:
  "(i < length model_names \<and> (\<forall>j<i. \<not> probe_at be model_names lg j) \<and>
    probe_at be model_names lg i \<longrightarrow>
      probe_walk be model_names lg =
        (True, lg @ map (\<lambda>m. GenerateContent m probe_prompt) (take (Suc i) model_names))) \<and>
   (n < length (model # model_names) \<and>
    (\<forall>j<n. start_at be
        \<lparr>gc_temperature = temperature, gc_top_p = top_p, gc_top_k = top_k,
         gc_max_output_tokens = max_output_tokens\<rparr> (model # model_names) lg' j \<noteq> None) \<and>
    start_at be
        \<lparr>gc_temperature = temperature, gc_top_p = top_p, gc_top_k = top_k,
         gc_max_output_tokens = max_output_tokens\<rparr> (model # model_names) lg' n = None \<longrightarrow>
      get_gemini_chat be model temperature top_p top_k max_output_tokens lg' =
        (Inr \<lparr>session_model = (model # model_names) ! n,
              session_config =
                \<lparr>gc_temperature = temperature, gc_top_p = top_p, gc_top_k = top_k,
                 gc_max_output_tokens = max_output_tokens\<rparr>\<rparr>,
         lg' @ map (\<lambda>m. StartChat m
                \<lparr>gc_temperature = temperature, gc_top_p = top_p, gc_top_k = top_k,
                 gc_max_output_tokens = max_output_tokens\<rparr>) (take (Suc n) (model # model_names))))"
  using probe_walk_success[of i model_names be lg]
    get_gemini_chat_bound[of n model be temperature top_p top_k max_output_tokens lg']
  by blast

theorem probe_walk_stops_at_first_success_witness:
  "probe_walk world_lite_only model_names [Configure ''key'', ListModels] =
     (True,
      [Configure ''key'', ListModels,
       GenerateContent ''models/gemini-pro'' ''Hello, testing the API.'',
       GenerateContent ''models/gemini-2.0-flash'' ''Hello, testing the API.'',
       GenerateContent ''models/gemini-2.0-flash-lite'' ''Hello, testing the API.'']) \<and>
   get_gemini_chat world_stale_name ''gemini-pro'' (7 / 10) (8 / 10) 40 2048 [] =
     (Inr \<lparr>session_model = ''models/gemini-pro'', session_config = default_gc\<rparr>,
      [StartChat ''gemini-pro'' default_gc, StartChat ''models/gemini-pro'' default_gc])"
proof -
  have a: "(2::nat) < length model_names \<and>
      (\<forall>j<2. \<not> probe_at world_lite_only model_names [Configure ''key'', ListModels] j) \<and>
      probe_at world_lite_only model_names [Configure ''key'', ListModels] 2"
    by (simp add: world_lite_only_def world_defs numeral_2_eq_2 All_less_Suc)
  have b: "(1::nat) < length (''gemini-pro'' # model_names) \<and>
      (\<forall>j<1. start_at world_stale_name
        \<lparr>gc_temperature = 7 / 10, gc_top_p = 8 / 10, gc_top_k = 40,
         gc_max_output_tokens = 2048\<rparr> (''gemini-pro'' # model_names) [] j \<noteq> None) \<and>
      start_at world_stale_name
        \<lparr>gc_temperature = 7 / 10, gc_top_p = 8 / 10, gc_top_k = 40,
         gc_max_output_tokens = 2048\<rparr> (''gemini-pro'' # model_names) [] 1 = None"
    by (simp add: world_stale_name_def world_defs)
  note probing =
    probe_walk_stops_at_first_success[of 2 world_lite_only "[Configure ''key'', ListModels]"]
  note binding =
    probe_walk_stops_at_first_success[of _ world_stale_name _
      1 "''gemini-pro''" "7 / 10" "8 / 10" 40 2048 "[]"]
  from probing a
  have probed: "probe_walk world_lite_only model_names [Configure ''key'', ListModels] =
      (True, [Configure ''key'', ListModels] @
         map (\<lambda>m. GenerateContent m probe_prompt) (take (Suc 2) model_names))"
    by blast
  from binding b
  have bound: "get_gemini_chat world_stale_name ''gemini-pro'' (7 / 10) (8 / 10) 40 2048 [] =
      (Inr \<lparr>session_model = (''gemini-pro'' # model_names) ! 1,
            session_config =
              \<lparr>gc_temperature = 7 / 10, gc_top_p = 8 / 10, gc_top_k = 40,
               gc_max_output_tokens = 2048\<rparr>\<rparr>,
       [] @ map (\<lambda>m. StartChat m
              \<lparr>gc_temperature = 7 / 10, gc_top_p = 8 / 10, gc_top_k = 40,
               gc_max_output_tokens = 2048\<rparr>) (take (Suc 1) (''gemini-pro'' # model_names)))"
    by blast
  from probed bound show ?thesis
    by (simp add: model_names_def probe_prompt_def default_gc_def)
qed

text \<open>
  C3. When every probe raises, \<^verbatim>\<open>initialize_gemini\<close> raises a \<^verbatim>\<open>ValueError\<close> whose
  message is fixed: the probe loop drops each candidate's exception, so none of them is
  carried. In the same world the sibling walk of \<^verbatim>\<open>get_gemini_chat\<close> does carry the last
  candidate's error in its message.
\<close>

theorem initialize_gemini_drops_probe_errors:
  "initialize_gemini world_down no_env (Some ''key'') [] =
     (Inl (Exc ValueError
        ''Failed to initialize Gemini API: Failed to initialize with any available model''),
      [Configure ''key'', ListModels,
       GenerateContent ''models/gemini-pro'' ''Hello, testing the API.'',
       GenerateContent ''models/gemini-2.0-flash'' ''Hello, testing the API.'',
       GenerateContent ''models/gemini-2.0-flash-lite'' ''Hello, testing the API.'']) \<and>
   fst (get_gemini_chat world_down ''gemini-pro'' (7 / 10) (8 / 10) 40 2048 []) =
     Inl (Exc PyException
        (''Failed to create Gemini chat instance with any model: '' @
         ''404 models/gemini-2.0-flash-lite is not found''))"
  by (simp add: world_down_def world_defs initialize_gemini_def initialize_gemini_try_def
      probe_prompt_def get_gemini_chat_def)

text \<open>
  C10. With a provider other than \<^verbatim>\<open>gemini\<close>, constructing a \<^verbatim>\<open>Chat\<close> raises
  \<^verbatim>\<open>NotImplementedError\<close> and makes no backend call; so does \<^verbatim>\<open>reset\<close> on any object
  that holds such a configuration, and it leaves the object, its session handle
  included, as it was.
\<close>

theorem other_providers_not_implemented:
  assumes "provider cfg \<noteq> ''gemini''"
  shows
    "Chat_init be getenv (Some cfg) sys_msg lg =
       (Inl (Exc NotImplementedError ''Only Gemini provider is currently supported''), lg) \<and>
     (config self = cfg \<longrightarrow>
        Chat_reset be getenv self lg =
          ((Some (Exc NotImplementedError ''Only Gemini provider is currently supported''), self),
           lg))"
  using assms by (simp add: Chat_init_def Chat_reset_def initialize_chat_def)

theorem other_providers_not_implemented_witness:
  "Chat_init world_echo key_env (Some openai_keyed_config) None [] =
     (Inl (Exc NotImplementedError ''Only Gemini provider is currently supported''), []) \<and>
   Chat_reset world_echo key_env openai_chat [] =
     ((Some (Exc NotImplementedError ''Only Gemini provider is currently supported''), openai_chat),
      [])"
proof -
  have "provider openai_keyed_config \<noteq> ''gemini''"
    by (simp add: openai_keyed_config_def)
  from other_providers_not_implemented[OF this, of world_echo key_env None "[]" openai_chat]
  show ?thesis by (simp add: openai_chat_def)
qed

section \<open>Configuration\<close>

lemma GeminiConfig_errors_Nil_iff:
  "GeminiConfig_errors g = [] \<longleftrightarrow>
     gemini_model g = ''gemini-pro'' \<and>
     0 \<le> gemini_temperature g \<and> gemini_temperature g \<le> 1 \<and>
     0 \<le> gemini_top_p g \<and> gemini_top_p g \<le> 1 \<and>
     1 \<le> gemini_top_k g \<and> 1 \<le> gemini_max_output_tokens g"
  unfolding GeminiConfig_errors_def by (simp only: append_is_Nil_conv) auto

lemma OpenAIConfig_errors_Nil_iff:
  "OpenAIConfig_errors f = [] \<longleftrightarrow>
     (openai_model f = ''gpt-3.5-turbo'' \<or> openai_model f = ''gpt-4'') \<and>
     0 \<le> openai_temperature f \<and> openai_temperature f \<le> 2 \<and>
     0 \<le> openai_top_p f \<and> openai_top_p f \<le> 1 \<and>
     - 2 \<le> openai_presence_penalty f \<and> openai_presence_penalty f \<le> 2 \<and>
     - 2 \<le> openai_frequency_penalty f \<and> openai_frequency_penalty f \<le> 2 \<and>
     (case openai_max_tokens f of None \<Rightarrow> True | Some n \<Rightarrow> 1 \<le> n)"
  unfolding OpenAIConfig_errors_def
  by (simp only: append_is_Nil_conv) (auto split: option.splits)

text \<open>
  C4. Construction validates: \<^verbatim>\<open>GeminiConfig(...)\<close> returns the object exactly when the
  model is the literal and temperature and top\_p are in \<open>[0,1]\<close>, top\_k and
  max\_output\_tokens at least 1; \<^verbatim>\<open>OpenAIConfig(...)\<close> exactly when the model is one of
  its literals, temperature is in \<open>[0,2]\<close>, top\_p in \<open>[0,1]\<close>, both penalties in
  \<open>[-2,2]\<close>, and max\_tokens is absent or at least 1. Otherwise construction fails
  there and then, with a non-empty list of the fields out of range.
\<close>

theorem construction_succeeds_iff_in_range:
  "(GeminiConfig_new g = Inr g \<longleftrightarrow>
      gemini_model g = ''gemini-pro'' \<and>
      0 \<le> gemini_temperature g \<and> gemini_temperature g \<le> 1 \<and>
      0 \<le> gemini_top_p g \<and> gemini_top_p g \<le> 1 \<and>
      1 \<le> gemini_top_k g \<and> 1 \<le> gemini_max_output_tokens g) \<and>
   (GeminiConfig_new g = Inr g \<or>
      (\<exists>field fields. GeminiConfig_new g = Inl (field # fields))) \<and>
   (OpenAIConfig_new f = Inr f \<longleftrightarrow>
      (openai_model f = ''gpt-3.5-turbo'' \<or> openai_model f = ''gpt-4'') \<and>
      0 \<le> openai_temperature f \<and> openai_temperature f \<le> 2 \<and>
      0 \<le> openai_top_p f \<and> openai_top_p f \<le> 1 \<and>
      - 2 \<le> openai_presence_penalty f \<and> openai_presence_penalty f \<le> 2 \<and>
      - 2 \<le> openai_frequency_penalty f \<and> openai_frequency_penalty f \<le> 2 \<and>
      (case openai_max_tokens f of None \<Rightarrow> True | Some n \<Rightarrow> 1 \<le> n)) \<and>
   (OpenAIConfig_new f = Inr f \<or>
      (\<exists>field fields. OpenAIConfig_new f = Inl (field # fields)))"
proof (intro conjI)
  show "GeminiConfig_new g = Inr g \<longleftrightarrow>
      gemini_model g = ''gemini-pro'' \<and>
      0 \<le> gemini_temperature g \<and> gemini_temperature g \<le> 1 \<and>
      0 \<le> gemini_top_p g \<and> gemini_top_p g \<le> 1 \<and>
      1 \<le> gemini_top_k g \<and> 1 \<le> gemini_max_output_tokens g"
    unfolding GeminiConfig_errors_Nil_iff[symmetric] by (simp add: GeminiConfig_new_def)
  show "GeminiConfig_new g = Inr g \<or> (\<exists>field fields. GeminiConfig_new g = Inl (field # fields))"
    by (cases "GeminiConfig_errors g") (simp_all add: GeminiConfig_new_def)
  show "OpenAIConfig_new f = Inr f \<longleftrightarrow>
      (openai_model f = ''gpt-3.5-turbo'' \<or> openai_model f = ''gpt-4'') \<and>
      0 \<le> openai_temperature f \<and> openai_temperature f \<le> 2 \<and>
      0 \<le> openai_top_p f \<and> openai_top_p f \<le> 1 \<and>
      - 2 \<le> openai_presence_penalty f \<and> openai_presence_penalty f \<le> 2 \<and>
      - 2 \<le> openai_frequency_penalty f \<and> openai_frequency_penalty f \<le> 2 \<and>
      (case openai_max_tokens f of None \<Rightarrow> True | Some n \<Rightarrow> 1 \<le> n)"
    unfolding OpenAIConfig_errors_Nil_iff[symmetric] by (simp add: OpenAIConfig_new_def)
  show "OpenAIConfig_new f = Inr f \<or> (\<exists>field fields. OpenAIConfig_new f = Inl (field # fields))"
    by (cases "OpenAIConfig_errors f") (simp_all add: OpenAIConfig_new_def)
qed

theorem construction_succeeds_iff_in_range_witness:
  "GeminiConfig_new (GeminiConfig_default\<lparr>gemini_temperature := 15 / 10\<rparr>) \<noteq>
     Inr (GeminiConfig_default\<lparr>gemini_temperature := 15 / 10\<rparr>) \<and>
   GeminiConfig_new GeminiConfig_default = Inr GeminiConfig_default \<and>
   OpenAIConfig_new openai_example = Inr openai_example \<and>
   OpenAIConfig_new (openai_example\<lparr>openai_temperature := 25 / 10\<rparr>) \<noteq>
     Inr (openai_example\<lparr>openai_temperature := 25 / 10\<rparr>)"
  using construction_succeeds_iff_in_range[of "GeminiConfig_default\<lparr>gemini_temperature := 15 / 10\<rparr>"
      openai_example]
    construction_succeeds_iff_in_range[of GeminiConfig_default
      "openai_example\<lparr>openai_temperature := 25 / 10\<rparr>"]
  by (simp add: GeminiConfig_default_def openai_example_def)

text \<open>
  C5. When the selected provider's sub-configuration holds an explicit key (a
  non-empty string) and the provider's environment variable is set as well,
  \<^verbatim>\<open>get_api_key\<close> returns the explicit key.
\<close>

theorem explicit_key_wins:
  assumes "k \<noteq> []"
  shows
    "(provider cfg = ''openai'' \<and> openai_config cfg = Some oc \<and> openai_api_key oc = Some k \<and>
      getenv ''OPENAI_API_KEY'' = Some from_env \<longrightarrow> get_api_key getenv cfg = Inr (Some k)) \<and>
     (provider cfg \<noteq> ''openai'' \<and> gemini_config cfg = Some gc \<and> gemini_api_key gc = Some k \<and>
      getenv ''GOOGLE_API_KEY'' = Some from_env \<longrightarrow> get_api_key getenv cfg = Inr (Some k))"
  using assms by (simp add: get_api_key_def py_or_def)

theorem explicit_key_wins_witness:
  "get_api_key key_env keyed_config = Inr (Some ''key'') \<and>
   get_api_key key_env openai_keyed_config = Inr (Some ''explicit'')"
proof -
  have 1: "get_api_key key_env keyed_config = Inr (Some ''key'')"
    using explicit_key_wins[of "''key''" keyed_config _ key_env "''google-env-key''"
        "GeminiConfig_default\<lparr>gemini_api_key := Some ''key''\<rparr>"]
    by (simp add: keyed_config_def key_env_def)
  have 2: "get_api_key key_env openai_keyed_config = Inr (Some ''explicit'')"
    using explicit_key_wins[of "''explicit''" openai_keyed_config
        "openai_example\<lparr>openai_api_key := Some ''explicit''\<rparr>" key_env "''openai-env-key''"]
    by (simp add: openai_keyed_config_def key_env_def)
  from 1 2 show ?thesis by simp
qed

end
